theory Spec2Isabelle
  imports Main "HOL-Library.Multiset"
begin

section \<open>Data model\<close>

text \<open>
  The handlers of \<^verbatim>\<open>src/controllers/social.ts\<close> work on two collections of a
  document store, \<^verbatim>\<open>Post\<close> and \<^verbatim>\<open>User\<close>. A collection is the list of its
  documents in the store's natural order; identifiers are the strings the handlers
  receive in \<^verbatim>\<open>req.params\<close>.
\<close>

type_synonym object_id = string

text \<open>One entry of \<^verbatim>\<open>post.comments\<close>, the object \<^verbatim>\<open>{ userId, comment }\<close>.\<close>

record comment =
  comment_userId :: object_id
  comment_text :: string

text \<open>
  Modelled from the spec: the schema of \<^verbatim>\<open>Post\<close> (\<^verbatim>\<open>../models\<close>) has the fields the
  data model lists and the handlers read and write. Optional text and image content
  are \<open>None\<close> when the field is \<^verbatim>\<open>undefined\<close>; timestamps are integers.
\<close>

record post =
  post_id :: object_id
  userId :: object_id
  textContent :: "string option"
  imageContent :: "string option"
  tags :: "string list"
  likes :: "object_id list"
  comments :: "comment list"
  donatable :: bool
  createdAt :: int
  updatedAt :: int

text \<open>
  Modelled from the spec: the schema of \<^verbatim>\<open>User\<close> (\<^verbatim>\<open>../models\<close>), with the fields the
  handlers use: the four that the feed projects and the connections sequence.
\<close>

record user =
  user_id :: object_id
  firstName :: string
  lastName :: string
  email :: string
  imageUrl :: string
  connections :: "object_id list"

text \<open>
  The store: its two collections, and the strings that its driver can read as an
  identifier (\<^verbatim>\<open>ObjectId\<close>). Which strings those are is the driver's matter and is left
  open; a string of 24 hexadecimal digits is one for every driver.
\<close>

record db =
  posts :: "post list"
  users :: "user list"
  castObjectId :: "string \<Rightarrow> bool"

text \<open>
  A handler ends in \<^verbatim>\<open>res.json(...)\<close> or in \<^verbatim>\<open>res.status(statusCode); throw new
  Error(errorMessage)\<close>; the second is \<open>HttpError statusCode errorMessage\<close>. A query
  that the store itself rejects makes the handler's promise reject with the store's
  error: \<open>StoreError\<close>.
\<close>

datatype error = HttpError nat string | StoreError

section \<open>JavaScript values\<close>

text \<open>
  A value typed \<^verbatim>\<open>number\<close> that may be missing: \<open>None\<close> is \<^verbatim>\<open>undefined\<close>, which
  every arithmetic operator turns into \<^verbatim>\<open>NaN\<close>, and \<open>None\<close> is \<^verbatim>\<open>NaN\<close> as well.
  The numbers are integers (page indices, page sizes and counts).
\<close>

type_synonym js_number = "int option"

definition js_mul :: "js_number \<Rightarrow> js_number \<Rightarrow> js_number" where
  "js_mul a b = (case a of None \<Rightarrow> None | Some x \<Rightarrow> (case b of None \<Rightarrow> None | Some y \<Rightarrow> Some (x * y)))"

definition js_add :: "js_number \<Rightarrow> js_number \<Rightarrow> js_number" where
  "js_add a b = (case a of None \<Rightarrow> None | Some x \<Rightarrow> (case b of None \<Rightarrow> None | Some y \<Rightarrow> Some (x + y)))"

text \<open>\<^verbatim>\<open>x || d\<close> on numbers: \<^verbatim>\<open>NaN\<close> and \<^verbatim>\<open>0\<close> are falsy.\<close>

definition js_or :: "js_number \<Rightarrow> int \<Rightarrow> int" where
  "js_or x d = (case x of None \<Rightarrow> d | Some n \<Rightarrow> if n = 0 then d else n)"

text \<open>\<^verbatim>\<open>a > b\<close>: a comparison with \<^verbatim>\<open>NaN\<close> is false.\<close>

definition js_gt :: "int \<Rightarrow> js_number \<Rightarrow> bool" where
  "js_gt a b = (case b of None \<Rightarrow> False | Some y \<Rightarrow> a > y)"

text \<open>
  A request parameter as the handler can compare it: \<^verbatim>\<open>null\<close>, \<^verbatim>\<open>undefined\<close> or a
  string. The router supplies \<^verbatim>\<open>undefined\<close> for an optional path segment that is
  absent, and a string otherwise.
\<close>

datatype js_param = JNull | JUndefined | JString string

text \<open>
  Truthiness of an object reference: every object is truthy, the empty array too. The
  handlers test the store's results this way.
\<close>

definition js_truthy_object :: "'a \<Rightarrow> bool" where
  "js_truthy_object x = True"

text \<open>\<^verbatim>\<open>s.split(c)\<close> for a separator of one character.\<close>

fun js_split :: "char \<Rightarrow> string \<Rightarrow> string list" where
  "js_split c [] = [[]]"
| "js_split c (x # xs) =
     (if x = c then [] # js_split c xs
      else (case js_split c xs of [] \<Rightarrow> [[x]] | w # ws \<Rightarrow> (x # w) # ws))"

text \<open>\<^verbatim>\<open>parts.join(c)\<close>, the inverse that the properties of \<open>js_split\<close> are stated with.\<close>

fun js_join :: "char \<Rightarrow> string list \<Rightarrow> string" where
  "js_join c [] = []"
| "js_join c [w] = w"
| "js_join c (w # ws) = w @ c # js_join c ws"

section \<open>The store\<close>

text \<open>
  \<^verbatim>\<open>Model.findById(id)\<close> first casts the string to an identifier. A string that is
  not one makes the query reject (\<^verbatim>\<open>CastError\<close>): the \<^verbatim>\<open>await\<close> throws, the handler
  sets no status, and the error is the store's. Otherwise the query yields the
  document with that identifier or \<^verbatim>\<open>null\<close>.
  \<^verbatim>\<open>doc.updateOne(update)\<close> sets the fields named in \<open>update\<close> on the first
  document that has the identifier of \<open>doc\<close> and resolves to a result object. A
  lost connection to the store is not modelled.
\<close>

fun findById :: "('a \<Rightarrow> object_id) \<Rightarrow> 'a list \<Rightarrow> object_id \<Rightarrow> 'a option" where
  "findById ident [] i = None"
| "findById ident (d # ds) i = (if ident d = i then Some d else findById ident ds i)"

fun updateOne :: "('a \<Rightarrow> object_id) \<Rightarrow> object_id \<Rightarrow> ('a \<Rightarrow> 'a) \<Rightarrow> 'a list \<Rightarrow> 'a list" where
  "updateOne ident i f [] = []"
| "updateOne ident i f (d # ds) =
     (if ident d = i then f d # ds else d # updateOne ident i f ds)"

record update_result =
  matchedCount :: nat

fun matched :: "('a \<Rightarrow> object_id) \<Rightarrow> object_id \<Rightarrow> 'a list \<Rightarrow> nat" where
  "matched ident i [] = 0"
| "matched ident i (d # ds) = (if ident d = i then 1 else matched ident i ds)"

definition Post_findById :: "db \<Rightarrow> string \<Rightarrow> error + post option" where
  "Post_findById d i =
     (if castObjectId d i then Inr (findById post_id (posts d) i) else Inl StoreError)"

definition Post_updateOne :: "db \<Rightarrow> post \<Rightarrow> (post \<Rightarrow> post) \<Rightarrow> db \<times> update_result" where
  "Post_updateOne d doc f =
     (d\<lparr>posts := updateOne post_id (post_id doc) f (posts d)\<rparr>,
      \<lparr>matchedCount = matched post_id (post_id doc) (posts d)\<rparr>)"

definition User_findById :: "db \<Rightarrow> string \<Rightarrow> error + user option" where
  "User_findById d i =
     (if castObjectId d i then Inr (findById user_id (users d) i) else Inl StoreError)"

definition User_updateOne :: "db \<Rightarrow> user \<Rightarrow> (user \<Rightarrow> user) \<Rightarrow> db \<times> update_result" where
  "User_updateOne d doc f =
     (d\<lparr>users := updateOne user_id (user_id doc) f (users d)\<rparr>,
      \<lparr>matchedCount = matched user_id (user_id doc) (users d)\<rparr>)"

section \<open>Post mutations\<close>

text \<open>
  The loop of \<^verbatim>\<open>likePost\<close>: \<^verbatim>\<open>post.likes.forEach((likedUserId) => { if (likedUserId !==
  userId) updatedLikes.push(likedUserId); })\<close>, with \<open>acc\<close> the array
  \<^verbatim>\<open>updatedLikes\<close> built so far.
\<close>

fun likes_forEach :: "object_id \<Rightarrow> object_id list \<Rightarrow> object_id list \<Rightarrow> object_id list" where
  "likes_forEach uid [] acc = acc"
| "likes_forEach uid (likedUserId # rest) acc =
     likes_forEach uid rest (if likedUserId \<noteq> uid then acc @ [likedUserId] else acc)"

text \<open>\<^verbatim>\<open>PUT /api/v1/social/:userId/:postId/like\<close>\<close>

definition likePost :: "db \<Rightarrow> string \<Rightarrow> object_id \<Rightarrow> db \<times> (error + string)" where
  "likePost d postId uid =
     (case Post_findById d postId of
        Inl e \<Rightarrow> (d, Inl e)
      | Inr None \<Rightarrow> (d, Inl (HttpError 404 ''Post not found''))
      | Inr (Some p) \<Rightarrow>
          (let updatedLikes =
                 (if uid \<in> set (likes p) then likes_forEach uid (likes p) []
                  else likes p @ [uid]);
               (d', postLiked) = Post_updateOne d p (\<lambda>x. x\<lparr>likes := updatedLikes\<rparr>)
           in if js_truthy_object postLiked then (d', Inr ''Post Liked'')
              else (d', Inl (HttpError 500 ''Failed to like post''))))"

text \<open>\<^verbatim>\<open>PUT /api/v1/social/:userId/:postId/comment\<close>, with the body's \<^verbatim>\<open>comment\<close>.\<close>

definition commentPost :: "db \<Rightarrow> string \<Rightarrow> object_id \<Rightarrow> string \<Rightarrow> db \<times> (error + string)" where
  "commentPost d postId uid text =
     (case Post_findById d postId of
        Inl e \<Rightarrow> (d, Inl e)
      | Inr None \<Rightarrow> (d, Inl (HttpError 404 ''Post not found''))
      | Inr (Some p) \<Rightarrow>
          (let (d', commentPosted) =
                 Post_updateOne d p
                   (\<lambda>x. x\<lparr>comments := comments p @ [\<lparr>comment_userId = uid, comment_text = text\<rparr>]\<rparr>)
           in if js_truthy_object commentPosted then (d', Inr ''Commented on post'')
              else (d', Inl (HttpError 500 ''Failed to comment on post''))))"

text \<open>
  The body of an edit request, \<^verbatim>\<open>{ textContent?: string; imageContent?: string; tags:
  string }\<close>.
\<close>

record edit_body =
  body_textContent :: "string option"
  body_imageContent :: "string option"
  body_tags :: string

text \<open>\<^verbatim>\<open>PUT /api/v1/social/:userId/:postId/edit\<close>\<close>

definition editPost :: "db \<Rightarrow> string \<Rightarrow> edit_body \<Rightarrow> db \<times> (error + string)" where
  "editPost d postId body =
     (case Post_findById d postId of
        Inl e \<Rightarrow> (d, Inl e)
      | Inr None \<Rightarrow> (d, Inl (HttpError 404 ''Post not found''))
      | Inr (Some p) \<Rightarrow>
          (let (d', postEdited) =
                 Post_updateOne d p
                   (\<lambda>x. x\<lparr>textContent := body_textContent body,
                          imageContent := body_imageContent body,
                          tags := js_split CHR '','' (body_tags body)\<rparr>)
           in if js_truthy_object postEdited then (d', Inr ''Post edited'')
              else (d', Inl (HttpError 500 ''Failed to edit post''))))"

section \<open>Connections\<close>

text \<open>\<^verbatim>\<open>PUT /api/v1/social/connections/:userId/addConnection\<close>\<close>

definition addUserSocialConnections :: "db \<Rightarrow> string \<Rightarrow> object_id \<Rightarrow> db \<times> (error + string)" where
  "addUserSocialConnections d uid otherUserId =
     (case User_findById d uid of
        Inl e \<Rightarrow> (d, Inl e)
      | Inr None \<Rightarrow> (d, Inl (HttpError 404 ''User not found''))
      | Inr (Some u) \<Rightarrow>
          (let (d', connectionAdded) =
                 User_updateOne d u (\<lambda>x. x\<lparr>connections := connections u @ [otherUserId]\<rparr>)
           in if js_truthy_object connectionAdded
              then (d', Inr ''User added to your connections list'')
              else (d', Inl (HttpError 500
                      ''Failed to add connection to the user's database entry''))))"

text \<open>\<^verbatim>\<open>PUT /api/v1/social/connections/:userId/removeConnection\<close>\<close>

definition removeUserSocialConnections :: "db \<Rightarrow> string \<Rightarrow> object_id \<Rightarrow> db \<times> (error + string)" where
  "removeUserSocialConnections d uid otherUserId =
     (case User_findById d uid of
        Inl e \<Rightarrow> (d, Inl e)
      | Inr None \<Rightarrow> (d, Inl (HttpError 404 ''User not found''))
      | Inr (Some u) \<Rightarrow>
          (let updatedConnections =
                 filter (\<lambda>userConnectionId. userConnectionId \<noteq> otherUserId) (connections u);
               (d', connectionRemoved) =
                 User_updateOne d u (\<lambda>x. x\<lparr>connections := updatedConnections\<rparr>)
           in if js_truthy_object connectionRemoved
              then (d', Inr ''User removed from your connections list'')
              else (d', Inl (HttpError 500
                      ''Failed to remove connection from the user's database entry''))))"

section \<open>The feed query\<close>

text \<open>
  The query string of \<^verbatim>\<open>GET /api/v1/social\<close>, cast by the handler to \<^verbatim>\<open>{ start: number;
  limit: number; order: 'asc' | 'desc' }\<close>; each field may be missing.
\<close>

record search_query =
  start :: js_number
  limit :: js_number
  order :: "string option"

text \<open>The \<^verbatim>\<open>$project\<close> stage: the post without its \<^verbatim>\<open>userId\<close>, and five fields of the author.\<close>

record user_summary =
  summary_id :: object_id
  summary_firstName :: string
  summary_lastName :: string
  summary_email :: string
  summary_imageUrl :: string

record feed_post =
  feed_id :: object_id
  feed_textContent :: "string option"
  feed_imageContent :: "string option"
  feed_likes :: "object_id list"
  feed_tags :: "string list"
  feed_comments :: "comment list"
  feed_donatable :: bool
  feed_createdAt :: int
  feed_updatedAt :: int
  feed_user :: "user_summary option"

record feed_response =
  data :: "feed_post list"
  filters :: search_query
  hasNextPage :: bool
  total :: int

text \<open>
  \<^verbatim>\<open>$lookup\<close> from \<^verbatim>\<open>users\<close> on \<^verbatim>\<open>userId = _id\<close>, then \<^verbatim>\<open>$unwind\<close> with
  \<^verbatim>\<open>preserveNullAndEmptyArrays\<close>: a post with no author stays, without a user; a post
  with authors gives one document for each.
\<close>

definition lookup_unwind :: "user list \<Rightarrow> post \<Rightarrow> (post \<times> user option) list" where
  "lookup_unwind us p =
     (case filter (\<lambda>u. user_id u = userId p) us of
        [] \<Rightarrow> [(p, None)]
      | m # ms \<Rightarrow> map (\<lambda>u. (p, Some u)) (m # ms))"

definition project_user :: "user \<Rightarrow> user_summary" where
  "project_user u =
     \<lparr>summary_id = user_id u, summary_firstName = firstName u, summary_lastName = lastName u,
      summary_email = email u, summary_imageUrl = imageUrl u\<rparr>"

definition project :: "post \<times> user option \<Rightarrow> feed_post" where
  "project pu =
     (case pu of (p, u) \<Rightarrow>
        \<lparr>feed_id = post_id p, feed_textContent = textContent p,
         feed_imageContent = imageContent p, feed_likes = likes p, feed_tags = tags p,
         feed_comments = comments p, feed_donatable = donatable p,
         feed_createdAt = createdAt p, feed_updatedAt = updatedAt p,
         feed_user = map_option project_user u\<rparr>)"

text \<open>
  \<^verbatim>\<open>$sort: { createdAt: order === 'asc' ? 1 : -1 }\<close>. The store leaves the order of
  posts with equal creation time open; the model keeps them in their order before the
  sort.
\<close>

definition sort_stage :: "string option \<Rightarrow> feed_post list \<Rightarrow> feed_post list" where
  "sort_stage ord xs =
     (if ord = Some ''asc'' then sort_key feed_createdAt xs
      else sort_key (\<lambda>x. - feed_createdAt x) xs)"

text \<open>The store rejects a negative \<^verbatim>\<open>$skip\<close> and a \<^verbatim>\<open>$limit\<close> that is not positive.\<close>

definition skip_stage :: "int \<Rightarrow> 'a list \<Rightarrow> error + 'a list" where
  "skip_stage n xs = (if n < 0 then Inl StoreError else Inr (drop (nat n) xs))"

definition limit_stage :: "int \<Rightarrow> 'a list \<Rightarrow> error + 'a list" where
  "limit_stage n xs = (if n \<le> 0 then Inl StoreError else Inr (take (nat n) xs))"

text \<open>
  The \<^verbatim>\<open>total\<close> facet, \<^verbatim>\<open>$group: { _id: null, count: { $sum: 1 } }\<close>: one document
  holding the count, and none for an empty collection.
\<close>

definition total_facet :: "post list \<Rightarrow> int list" where
  "total_facet ps = (if ps = [] then [] else [int (length ps)])"

text \<open>\<^verbatim>\<open>GET /api/v1/social\<close>\<close>

definition getPosts :: "db \<Rightarrow> search_query \<Rightarrow> db \<times> (error + feed_response)" where
  "getPosts d searchQuery =
     (let joined = map project (concat (map (lookup_unwind (users d)) (posts d)));
          sorted = sort_stage (order searchQuery) joined
      in case skip_stage (js_or (js_mul (start searchQuery) (limit searchQuery)) 0) sorted of
           Inl e \<Rightarrow> (d, Inl e)
         | Inr skipped \<Rightarrow>
             (case limit_stage (js_or (limit searchQuery) 10) skipped of
                Inl e \<Rightarrow> (d, Inl e)
              | Inr page \<Rightarrow>
                  (let count = (case total_facet (posts d) of
                                  [] \<Rightarrow> 0
                                | c # cs \<Rightarrow> js_or (Some c) 0);
                       next = js_gt count
                                (js_add (js_mul (start searchQuery) (limit searchQuery))
                                   (limit searchQuery))
                   in (d, Inr \<lparr>data = page, filters = searchQuery,
                                hasNextPage = next, total = count\<rparr>))))"

section \<open>The explore query\<close>

text \<open>
  The filter \<^verbatim>\<open>{ tags: { $in: [postTag] } }\<close>: a post matches a string when its tags
  hold it. The store reads \<^verbatim>\<open>undefined\<close> in the array as \<^verbatim>\<open>null\<close>, which no
  sequence of strings holds.
\<close>

definition tags_in :: "js_param \<Rightarrow> post \<Rightarrow> bool" where
  "tags_in postTag p =
     (case postTag of JString t \<Rightarrow> t \<in> set (tags p) | JUndefined \<Rightarrow> False | JNull \<Rightarrow> False)"

text \<open>\<^verbatim>\<open>.sort({ createdAt: -1 }).limit(10)\<close>\<close>

definition most_recent_10 :: "post list \<Rightarrow> post list" where
  "most_recent_10 ps = take 10 (sort_key (\<lambda>p. - createdAt p) ps)"

text \<open>\<^verbatim>\<open>PUT /api/v1/social/explore/:postTag\<close>\<close>

definition getPostData :: "db \<Rightarrow> js_param \<Rightarrow> db \<times> (error + post list)" where
  "getPostData d postTag =
     (let statusCode = (if postTag \<noteq> JNull then 404 else 204);
          errorMessage = (if postTag \<noteq> JNull then ''Tag not found'' else ''No Content Available'');
          found = (if postTag \<noteq> JNull then most_recent_10 (filter (tags_in postTag) (posts d))
                   else most_recent_10 (posts d))
      in if js_truthy_object found then (d, Inr found)
         else (d, Inl (HttpError statusCode errorMessage)))"

section \<open>Example stores\<close>

text \<open>
  Small stores and requests on which the theorems below are instantiated. Their
  driver reads exactly the strings of 24 hexadecimal digits as identifiers.
\<close>

definition hex_digit :: "char \<Rightarrow> bool" where
  "hex_digit c = (c \<in> set ''0123456789abcdefABCDEF'')"

definition hex24 :: "string \<Rightarrow> bool" where
  "hex24 s = (length s = 24 \<and> list_all hex_digit s)"

abbreviation post1 :: object_id where "post1 \<equiv> ''65f1a0000000000000000001''"
abbreviation post2 :: object_id where "post2 \<equiv> ''65f1a0000000000000000002''"
abbreviation post3 :: object_id where "post3 \<equiv> ''65f1a0000000000000000003''"
abbreviation user1 :: object_id where "user1 \<equiv> ''65f1c0000000000000000001''"
abbreviation user2 :: object_id where "user2 \<equiv> ''65f1c0000000000000000002''"
abbreviation user7 :: object_id where "user7 \<equiv> ''65f1c0000000000000000007''"
abbreviation user9 :: object_id where "user9 \<equiv> ''65f1c0000000000000000009''"

definition mk_post :: "object_id \<Rightarrow> object_id \<Rightarrow> string list \<Rightarrow> object_id list \<Rightarrow> int \<Rightarrow> post" where
  "mk_post i author ts ls t =
     \<lparr>post_id = i, userId = author, textContent = Some ''hello'', imageContent = None,
      tags = ts, likes = ls, comments = [], donatable = False, createdAt = t, updatedAt = t\<rparr>"

definition mk_user :: "object_id \<Rightarrow> object_id list \<Rightarrow> user" where
  "mk_user i cs =
     \<lparr>user_id = i, firstName = ''Ada'', lastName = ''L'', email = ''ada@example.org'',
      imageUrl = ''/uploads/ada.png'', connections = cs\<rparr>"

definition small_db :: db where
  "small_db =
     \<lparr>posts = [mk_post post1 user1 [''news''] [user2] 100,
               mk_post post2 user2 [''art'', ''news''] [] 200,
               mk_post post3 user9 [''art''] [user1, user2] 300],
      users = [mk_user user1 [user2], mk_user user2 []],
      castObjectId = hex24\<rparr>"

definition eleven_db :: db where
  "eleven_db =
     \<lparr>posts = [mk_post ''65f1b0000000000000000001'' user1 [''t''] [] 1, mk_post ''65f1b0000000000000000002'' user1 [''t''] [] 2,
               mk_post ''65f1b0000000000000000003'' user1 [''t''] [] 3, mk_post ''65f1b0000000000000000004'' user1 [''t''] [] 4,
               mk_post ''65f1b0000000000000000005'' user1 [''t''] [] 5, mk_post ''65f1b0000000000000000006'' user1 [''t''] [] 6,
               mk_post ''65f1b0000000000000000007'' user1 [''t''] [] 7, mk_post ''65f1b0000000000000000008'' user1 [''t''] [] 8,
               mk_post ''65f1b0000000000000000009'' user1 [''t''] [] 9, mk_post ''65f1b000000000000000000a'' user1 [''t''] [] 10,
               mk_post ''65f1b000000000000000000b'' user1 [''t''] [] 11],
      users = [mk_user user1 []],
      castObjectId = hex24\<rparr>"

section \<open>Facts about the store and the helpers\<close>

lemma findById_ident: "findById ident ds i = Some d \<Longrightarrow> ident d = i"
  by (induction ds) (auto split: if_splits)

lemma findById_updateOne:
  "findById ident ds i = Some d \<Longrightarrow> ident (f d) = i \<Longrightarrow>
   findById ident (updateOne ident i f ds) i = Some (f d)"
  by (induction ds) (auto split: if_splits)

lemma Post_findById_update:
  assumes "Post_findById d i = Inr (Some p)" and "post_id (f p) = post_id p"
  shows "Post_findById (d\<lparr>posts := updateOne post_id i f (posts d)\<rparr>) i = Inr (Some (f p))"
proof -
  have "castObjectId d i" and found: "findById post_id (posts d) i = Some p"
    using assms(1) by (simp_all add: Post_findById_def split: if_splits)
  moreover have "post_id p = i"
    using found by (rule findById_ident)
  ultimately show ?thesis
    using assms(2) by (simp add: Post_findById_def findById_updateOne)
qed

lemma User_findById_update:
  assumes "User_findById d i = Inr (Some u)" and "user_id (f u) = user_id u"
  shows "User_findById (d\<lparr>users := updateOne user_id i f (users d)\<rparr>) i = Inr (Some (f u))"
proof -
  have "castObjectId d i" and found: "findById user_id (users d) i = Some u"
    using assms(1) by (simp_all add: User_findById_def split: if_splits)
  moreover have "user_id u = i"
    using found by (rule findById_ident)
  ultimately show ?thesis
    using assms(2) by (simp add: User_findById_def findById_updateOne)
qed

text \<open>The loop of the like toggle keeps, in order, the ids that differ from the caller's.\<close>

lemma likes_forEach_filter: "likes_forEach uid xs acc = acc @ filter (\<lambda>x. x \<noteq> uid) xs"
  by (induction xs arbitrary: acc) auto

lemma likes_forEach_removeAll: "likes_forEach uid xs [] = removeAll uid xs"
proof -
  have "filter (\<lambda>x. x \<noteq> uid) xs = removeAll uid xs"
    by (induction xs) auto
  then show ?thesis by (simp add: likes_forEach_filter)
qed

text \<open>Splitting at a character: joining the parts gives the string back, and no part holds the character.\<close>

lemma js_split_not_Nil: "js_split c s \<noteq> []"
  by (induction s) (auto split: list.splits)

lemma js_join_split: "js_join c (js_split c s) = s"
proof (induction s)
  case Nil
  show ?case by simp
next
  case (Cons x xs)
  show ?case
  proof (cases "js_split c xs")
    case Nil
    then show ?thesis using js_split_not_Nil by simp
  next
    case (Cons w ws)
    then show ?thesis using Cons.IH by (cases ws) auto
  qed
qed

lemma js_split_no_sep: "w \<in> set (js_split c s) \<Longrightarrow> c \<notin> set w"
  by (induction s arbitrary: w) (auto split: if_splits list.splits)

text \<open>What each mutation does to the store when the document exists.\<close>

lemma likePost_found:
  assumes "Post_findById d postId = Inr (Some p)"
  shows "likePost d postId uid =
           (d\<lparr>posts := updateOne post_id postId
                 (\<lambda>x. x\<lparr>likes := (if uid \<in> set (likes p) then removeAll uid (likes p)
                                   else likes p @ [uid])\<rparr>) (posts d)\<rparr>,
            Inr ''Post Liked'')"
proof -
  have "post_id p = postId"
    using assms by (simp add: Post_findById_def findById_ident split: if_splits)
  with assms show ?thesis
    by (simp add: likePost_def Post_updateOne_def js_truthy_object_def likes_forEach_removeAll)
qed

lemma commentPost_found:
  assumes "Post_findById d postId = Inr (Some p)"
  shows "commentPost d postId uid text =
           (d\<lparr>posts := updateOne post_id postId
                 (\<lambda>x. x\<lparr>comments := comments p @ [\<lparr>comment_userId = uid, comment_text = text\<rparr>]\<rparr>)
                 (posts d)\<rparr>,
            Inr ''Commented on post'')"
proof -
  have "post_id p = postId"
    using assms by (simp add: Post_findById_def findById_ident split: if_splits)
  with assms show ?thesis
    by (simp add: commentPost_def Post_updateOne_def js_truthy_object_def)
qed

lemma editPost_found:
  assumes "Post_findById d postId = Inr (Some p)"
  shows "editPost d postId body =
           (d\<lparr>posts := updateOne post_id postId
                 (\<lambda>x. x\<lparr>textContent := body_textContent body,
                        imageContent := body_imageContent body,
                        tags := js_split CHR '','' (body_tags body)\<rparr>) (posts d)\<rparr>,
            Inr ''Post edited'')"
proof -
  have "post_id p = postId"
    using assms by (simp add: Post_findById_def findById_ident split: if_splits)
  with assms show ?thesis
    by (simp add: editPost_def Post_updateOne_def js_truthy_object_def)
qed

lemma addUserSocialConnections_found:
  assumes "User_findById d uid = Inr (Some u)"
  shows "addUserSocialConnections d uid other =
           (d\<lparr>users := updateOne user_id uid
                 (\<lambda>x. x\<lparr>connections := connections u @ [other]\<rparr>) (users d)\<rparr>,
            Inr ''User added to your connections list'')"
proof -
  have "user_id u = uid"
    using assms by (simp add: User_findById_def findById_ident split: if_splits)
  with assms show ?thesis
    by (simp add: addUserSocialConnections_def User_updateOne_def js_truthy_object_def)
qed

lemma removeUserSocialConnections_found:
  assumes "User_findById d uid = Inr (Some u)"
  shows "removeUserSocialConnections d uid other =
           (d\<lparr>users := updateOne user_id uid
                 (\<lambda>x. x\<lparr>connections := filter (\<lambda>c. c \<noteq> other) (connections u)\<rparr>) (users d)\<rparr>,
            Inr ''User removed from your connections list'')"
proof -
  have "user_id u = uid"
    using assms by (simp add: User_findById_def findById_ident split: if_splits)
  with assms show ?thesis
    by (simp add: removeUserSocialConnections_def User_updateOne_def js_truthy_object_def)
qed

section \<open>The like toggle\<close>

text \<open>
  C2. One call of \<open>likePost\<close> on an existing post, for any caller: the stored likes
  become the old likes without any occurrence of the caller's id when the id was
  among them, and the old likes followed by the id, once, when it was not. The call
  answers \<^verbatim>\<open>Post Liked\<close>.
\<close>

theorem likePost_toggle:
  assumes "Post_findById d postId = Inr (Some p)"
  shows "\<exists>p'. Post_findById (fst (likePost d postId uid)) postId = Inr (Some p') \<and>
           likes p' = (if uid \<in> set (likes p) then removeAll uid (likes p)
                       else likes p @ [uid]) \<and>
           snd (likePost d postId uid) = Inr ''Post Liked''"
proof -
  let ?f = "\<lambda>x. x\<lparr>likes := (if uid \<in> set (likes p) then removeAll uid (likes p)
                               else likes p @ [uid])\<rparr>"
  have "Post_findById (fst (likePost d postId uid)) postId = Inr (Some (?f p))"
    using assms by (simp add: likePost_found Post_findById_update)
  moreover have "snd (likePost d postId uid) = Inr ''Post Liked''"
    using assms by (simp add: likePost_found)
  ultimately show ?thesis by simp
qed

theorem likePost_toggle_witness:
  "Post_findById small_db post3 = Inr (Some (mk_post post3 user9 [''art''] [user1, user2] 300)) \<and>
   (\<exists>p'. Post_findById (fst (likePost small_db post3 user1)) post3 = Inr (Some p') \<and>
      likes p' = [user2] \<and> snd (likePost small_db post3 user1) = Inr ''Post Liked'')"
proof -
  have h: "Post_findById small_db post3 = Inr (Some (mk_post post3 user9 [''art''] [user1, user2] 300))"
    by (simp add: Post_findById_def small_db_def mk_post_def hex24_def hex_digit_def)
  have "likes (mk_post post3 user9 [''art''] [user1, user2] 300) = [user1, user2]"
    by (simp add: mk_post_def)
  with likePost_toggle [OF h, of "user1"] h show ?thesis by simp
qed

text \<open>
  C3. A post whose likes do not hold the caller's id: two calls of \<open>likePost\<close> by that
  caller, the second on the store the first one left, bring the likes of the post back
  to what they were.
\<close>

theorem likePost_twice:
  assumes "Post_findById d postId = Inr (Some p)" and "uid \<notin> set (likes p)"
  shows "\<exists>p'. Post_findById (fst (likePost (fst (likePost d postId uid)) postId uid)) postId
                 = Inr (Some p') \<and> likes p' = likes p"
proof -
  define d1 where "d1 = fst (likePost d postId uid)"
  define p1 where "p1 = p\<lparr>likes := likes p @ [uid]\<rparr>"
  have first: "Post_findById d1 postId = Inr (Some p1)"
    using assms by (simp add: d1_def p1_def likePost_found Post_findById_update)
  have "uid \<in> set (likes p1)"
    by (simp add: p1_def)
  moreover have "removeAll uid (likes p1) = likes p"
    using assms(2) by (simp add: p1_def)
  ultimately have "Post_findById (fst (likePost d1 postId uid)) postId
                     = Inr (Some (p1\<lparr>likes := likes p\<rparr>))"
    using first by (simp add: likePost_found Post_findById_update)
  then show ?thesis by (simp add: d1_def)
qed

theorem likePost_twice_witness:
  "Post_findById small_db post2 = Inr (Some (mk_post post2 user2 [''art'', ''news''] [] 200)) \<and>
   user1 \<notin> set (likes (mk_post post2 user2 [''art'', ''news''] [] 200)) \<and>
   (\<exists>p'. Post_findById (fst (likePost (fst (likePost small_db post2 user1)) post2 user1)) post2
            = Inr (Some p') \<and> likes p' = [])"
proof -
  have h: "Post_findById small_db post2 = Inr (Some (mk_post post2 user2 [''art'', ''news''] [] 200))"
    by (simp add: Post_findById_def small_db_def mk_post_def hex24_def hex_digit_def)
  have l: "likes (mk_post post2 user2 [''art'', ''news''] [] 200) = []"
    by (simp add: mk_post_def)
  then have n: "user1 \<notin> set (likes (mk_post post2 user2 [''art'', ''news''] [] 200))"
    by simp
  from likePost_twice [OF h n] h n l show ?thesis by simp
qed

section \<open>Comments\<close>

text \<open>
  C5. \<open>commentPost\<close> on an existing post, for any author id and text: the stored
  comments are the old comments, in their order, followed by one entry that holds the
  author id and the text.
\<close>

theorem commentPost_appends:
  assumes "Post_findById d postId = Inr (Some p)"
  shows "\<exists>p'. Post_findById (fst (commentPost d postId uid text)) postId = Inr (Some p') \<and>
           comments p' = comments p @ [\<lparr>comment_userId = uid, comment_text = text\<rparr>] \<and>
           snd (commentPost d postId uid text) = Inr ''Commented on post''"
proof -
  let ?f = "\<lambda>x. x\<lparr>comments := comments p @ [\<lparr>comment_userId = uid, comment_text = text\<rparr>]\<rparr>"
  have "Post_findById (fst (commentPost d postId uid text)) postId = Inr (Some (?f p))"
    using assms by (simp add: commentPost_found Post_findById_update)
  moreover have "snd (commentPost d postId uid text) = Inr ''Commented on post''"
    using assms by (simp add: commentPost_found)
  ultimately show ?thesis by simp
qed

theorem commentPost_appends_witness:
  "Post_findById small_db post1 = Inr (Some (mk_post post1 user1 [''news''] [user2] 100)) \<and>
   (\<exists>p'. Post_findById (fst (commentPost small_db post1 user2 ''nice'')) post1 = Inr (Some p') \<and>
      comments p' = [\<lparr>comment_userId = user2, comment_text = ''nice''\<rparr>] \<and>
      snd (commentPost small_db post1 user2 ''nice'') = Inr ''Commented on post'')"
proof -
  have h: "Post_findById small_db post1 = Inr (Some (mk_post post1 user1 [''news''] [user2] 100))"
    by (simp add: Post_findById_def small_db_def mk_post_def hex24_def hex_digit_def)
  have "comments (mk_post post1 user1 [''news''] [user2] 100) = []"
    by (simp add: mk_post_def)
  with commentPost_appends [OF h, of "user2" "''nice''"] h show ?thesis by simp
qed

section \<open>Editing\<close>

text \<open>
  C4. \<open>editPost\<close> on an existing post, for any body: the stored post has the body's
  text content and image content, and as tags the parts of the body's tag string
  between its commas (joined with commas they give the string back, and no part holds
  a comma); its likes and its comments are the ones it had.
\<close>

theorem editPost_replaces:
  assumes "Post_findById d postId = Inr (Some p)"
  shows "\<exists>p'. Post_findById (fst (editPost d postId body)) postId = Inr (Some p') \<and>
           textContent p' = body_textContent body \<and>
           imageContent p' = body_imageContent body \<and>
           tags p' = js_split CHR '','' (body_tags body) \<and>
           js_join CHR '','' (tags p') = body_tags body \<and>
           (\<forall>t \<in> set (tags p'). CHR '','' \<notin> set t) \<and>
           likes p' = likes p \<and> comments p' = comments p \<and>
           snd (editPost d postId body) = Inr ''Post edited''"
proof -
  let ?f = "\<lambda>x. x\<lparr>textContent := body_textContent body,
                    imageContent := body_imageContent body,
                    tags := js_split CHR '','' (body_tags body)\<rparr>"
  have "Post_findById (fst (editPost d postId body)) postId = Inr (Some (?f p))"
    using assms by (simp add: editPost_found Post_findById_update)
  moreover have "snd (editPost d postId body) = Inr ''Post edited''"
    using assms by (simp add: editPost_found)
  moreover have "\<forall>t \<in> set (js_split CHR '','' (body_tags body)). CHR '','' \<notin> set t"
    using js_split_no_sep by blast
  ultimately show ?thesis by (simp add: js_join_split)
qed

theorem editPost_replaces_witness:
  "Post_findById small_db post3 = Inr (Some (mk_post post3 user9 [''art''] [user1, user2] 300)) \<and>
   (\<exists>p'. Post_findById (fst (editPost small_db post3
             \<lparr>body_textContent = Some ''bye'', body_imageContent = None, body_tags = ''a,,b''\<rparr>)) post3
           = Inr (Some p') \<and>
      textContent p' = Some ''bye'' \<and> imageContent p' = None \<and> tags p' = [''a'', '''', ''b''] \<and>
      likes p' = [user1, user2] \<and> comments p' = [])"
proof -
  have h: "Post_findById small_db post3 = Inr (Some (mk_post post3 user9 [''art''] [user1, user2] 300))"
    by (simp add: Post_findById_def small_db_def mk_post_def hex24_def hex_digit_def)
  have "likes (mk_post post3 user9 [''art''] [user1, user2] 300) = [user1, user2]"
    and "comments (mk_post post3 user9 [''art''] [user1, user2] 300) = []"
    by (simp_all add: mk_post_def)
  with editPost_replaces [OF h,
      of "\<lparr>body_textContent = Some ''bye'', body_imageContent = None, body_tags = ''a,,b''\<rparr>"] h
  show ?thesis by auto
qed

section \<open>Connections\<close>

text \<open>
  C6. A user whose connections hold no occurrence of a target id:
  \<open>addUserSocialConnections\<close> with the target, then \<open>removeUserSocialConnections\<close>
  with the same target on the store the first call left, both succeed and bring the
  user's connections back to what they were.
\<close>

theorem add_then_remove_connection:
  assumes "User_findById d uid = Inr (Some u)" and "other \<notin> set (connections u)"
  shows "\<exists>u'. User_findById
                 (fst (removeUserSocialConnections
                         (fst (addUserSocialConnections d uid other)) uid other)) uid = Inr (Some u') \<and>
           connections u' = connections u \<and>
           snd (addUserSocialConnections d uid other)
             = Inr ''User added to your connections list'' \<and>
           snd (removeUserSocialConnections (fst (addUserSocialConnections d uid other)) uid other)
             = Inr ''User removed from your connections list''"
proof -
  define d1 where "d1 = fst (addUserSocialConnections d uid other)"
  define u1 where "u1 = u\<lparr>connections := connections u @ [other]\<rparr>"
  have added: "snd (addUserSocialConnections d uid other)
                 = Inr ''User added to your connections list''"
    using assms(1) by (simp add: addUserSocialConnections_found)
  have first: "User_findById d1 uid = Inr (Some u1)"
    using assms(1) by (simp add: d1_def u1_def addUserSocialConnections_found User_findById_update)
  have restored: "filter (\<lambda>c. c \<noteq> other) (connections u1) = connections u"
    using assms(2) by (auto simp: u1_def filter_id_conv)
  have "User_findById (fst (removeUserSocialConnections d1 uid other)) uid
          = Inr (Some (u1\<lparr>connections := connections u\<rparr>))"
    using first restored by (simp add: removeUserSocialConnections_found User_findById_update)
  moreover have "snd (removeUserSocialConnections d1 uid other)
                   = Inr ''User removed from your connections list''"
    using first by (simp add: removeUserSocialConnections_found)
  ultimately show ?thesis using added by (simp add: d1_def)
qed

theorem add_then_remove_connection_witness:
  "User_findById small_db user1 = Inr (Some (mk_user user1 [user2])) \<and>
   user7 \<notin> set (connections (mk_user user1 [user2])) \<and>
   (\<exists>u'. User_findById
            (fst (removeUserSocialConnections
                    (fst (addUserSocialConnections small_db user1 user7)) user1 user7)) user1
            = Inr (Some u') \<and> connections u' = [user2])"
proof -
  have h: "User_findById small_db user1 = Inr (Some (mk_user user1 [user2]))"
    by (simp add: User_findById_def small_db_def mk_user_def hex24_def hex_digit_def)
  have c: "connections (mk_user user1 [user2]) = [user2]"
    by (simp add: mk_user_def)
  then have n: "user7 \<notin> set (connections (mk_user user1 [user2]))"
    by simp
  from add_then_remove_connection [OF h n] h n c show ?thesis by auto
qed

section \<open>Posts that do not exist\<close>





section \<open>The feed page\<close>

text \<open>
  C1. For any store, a page index \<open>s \<ge> 0\<close> and a page size \<open>l > 0\<close>: \<open>getPosts\<close>
  answers with at most \<open>l\<close> posts, with \<open>total\<close> the number of posts in the store,
  and with \<open>hasNextPage\<close> true exactly when \<open>total > s * l + l\<close>.
\<close>

theorem getPosts_page:
  assumes "start q = Some s" and "limit q = Some l" and "0 \<le> s" and "0 < l"
  shows "\<exists>r. getPosts d q = (d, Inr r) \<and>
           int (length (data r)) \<le> l \<and>
           total r = int (length (posts d)) \<and>
           (hasNextPage r \<longleftrightarrow> total r > s * l + l)"
proof -
  have skip: "js_or (js_mul (start q) (limit q)) 0 = s * l"
    using assms(1,2) by (simp add: js_or_def js_mul_def)
  have "0 \<le> s * l"
    using assms(3,4) by simp
  then have skipped: "skip_stage (s * l) xs = Inr (drop (nat (s * l)) xs)" for xs :: "feed_post list"
    by (simp add: skip_stage_def)
  have lim: "js_or (limit q) 10 = l"
    using assms(2,4) by (simp add: js_or_def)
  have limited: "limit_stage l xs = Inr (take (nat l) xs)" for xs :: "feed_post list"
    using assms(4) by (simp add: limit_stage_def)
  have count: "(case total_facet (posts d) of [] \<Rightarrow> 0 | c # cs \<Rightarrow> js_or (Some c) 0)
                 = int (length (posts d))"
    by (simp add: total_facet_def js_or_def)
  have more: "js_gt n (js_add (js_mul (start q) (limit q)) (limit q)) \<longleftrightarrow> n > s * l + l" for n
    using assms(1,2) by (simp add: js_gt_def js_add_def js_mul_def)
  have "int (min n (nat l)) \<le> l" for n
    using assms(4) by simp
  then show ?thesis
    unfolding getPosts_def Let_def skip skipped lim limited count more
    by simp
qed

theorem getPosts_page_witness:
  "(\<exists>r. getPosts small_db \<lparr>start = Some 0, limit = Some 2, order = Some ''desc''\<rparr> = (small_db, Inr r) \<and>
      int (length (data r)) \<le> 2 \<and> total r = 3 \<and> hasNextPage r)"
proof -
  have "length (posts small_db) = 3"
    by (simp add: small_db_def)
  with getPosts_page [of "\<lparr>start = Some 0, limit = Some 2, order = Some ''desc''\<rparr>" 0 2 small_db]
  show ?thesis by auto
qed

section \<open>The explore query\<close>

text \<open>
  The ten most recent of a list of posts: at most ten, newest first, taken from the
  list, and no post left out is newer than one taken.
\<close>

lemma most_recent_10_length: "length (most_recent_10 ps) = min 10 (length ps)"
  by (simp add: most_recent_10_def min.commute)

lemma most_recent_10_descending:
  "sorted_wrt (\<lambda>a b. createdAt b \<le> createdAt a) (most_recent_10 ps)"
proof -
  have "sorted (map (\<lambda>p. - createdAt p) (take 10 (sort_key (\<lambda>p. - createdAt p) ps)))"
    by (simp add: take_map [symmetric] sorted_wrt_take)
  then show ?thesis
    by (simp add: most_recent_10_def sorted_map)
qed

lemma most_recent_10_newest:
  "\<exists>rest. mset (most_recent_10 ps) + mset rest = mset ps \<and>
          (\<forall>p \<in> set (most_recent_10 ps). \<forall>q \<in> set rest. createdAt q \<le> createdAt p)"
proof -
  let ?s = "sort_key (\<lambda>p. - createdAt p) ps"
  have split: "take 10 ?s @ drop 10 ?s = ?s"
    by simp
  have "mset (take 10 ?s) + mset (drop 10 ?s) = mset ?s"
    by (simp add: union_code)
  then have m: "mset (most_recent_10 ps) + mset (drop 10 ?s) = mset ps"
    by (simp add: most_recent_10_def)
  have "sorted (map (\<lambda>p. - createdAt p) (take 10 ?s @ drop 10 ?s))"
    unfolding split by simp
  then have "\<forall>p \<in> set (take 10 ?s). \<forall>q \<in> set (drop 10 ?s). createdAt q \<le> createdAt p"
    unfolding map_append sorted_append by auto
  with m show ?thesis
    unfolding most_recent_10_def by blast
qed

lemma most_recent_10_subset: "set (most_recent_10 ps) \<subseteq> set ps"
proof -
  have "set (take 10 (sort_key (\<lambda>p. - createdAt p) ps)) \<subseteq> set (sort_key (\<lambda>p. - createdAt p) ps)"
    by (rule set_take_subset)
  then show ?thesis by (simp add: most_recent_10_def)
qed

lemma most_recent_10_mset: "mset (most_recent_10 ps) \<subseteq># mset ps"
proof -
  obtain rest where "mset (most_recent_10 ps) + mset rest = mset ps"
    using most_recent_10_newest [of ps] by blast
  then show ?thesis
    by (metis mset_subset_eq_add_left)
qed

text \<open>With a tag given, the answer is the ten most recent posts whose tags hold it.\<close>

lemma getPostData_tag_given:
  "getPostData d (JString t) = (d, Inr (most_recent_10 (filter (\<lambda>p. t \<in> set (tags p)) (posts d))))"
proof -
  have "tags_in (JString t) = (\<lambda>p. t \<in> set (tags p))"
    by (simp add: tags_in_def fun_eq_iff)
  then show ?thesis
    by (simp add: getPostData_def js_truthy_object_def)
qed

text \<open>
  C10. For every value of the tag parameter, \<open>getPostData\<close> succeeds: it never ends
  in its 404 or 204 error. Its answer is the list of the matching posts, cut to the ten
  most recent: exactly \<open>most_recent_10\<close> of the posts that \<open>tags_in\<close> selects (for a
  tag string, the posts whose tags hold it), so it has as many posts as match, up to
  ten, each of them a matching post of the store, newest first, and it is the empty
  list when no post matches.
\<close>

theorem getPostData_always_succeeds:
  "\<exists>found. getPostData d postTag = (d, Inr found) \<and>
     (\<forall>e. snd (getPostData d postTag) \<noteq> Inl e) \<and>
     (postTag \<noteq> JNull \<longrightarrow>
        found = most_recent_10 (filter (tags_in postTag) (posts d)) \<and>
        length found = min 10 (length (filter (tags_in postTag) (posts d))) \<and>
        set found \<subseteq> {p \<in> set (posts d). tags_in postTag p} \<and>
        mset found \<subseteq># mset (filter (tags_in postTag) (posts d))) \<and>
     (\<forall>t. postTag = JString t \<longrightarrow>
        found = most_recent_10 (filter (\<lambda>p. t \<in> set (tags p)) (posts d)) \<and>
        (\<forall>p \<in> set found. t \<in> set (tags p))) \<and>
     sorted_wrt (\<lambda>a b. createdAt b \<le> createdAt a) found \<and>
     length found \<le> 10 \<and> set found \<subseteq> set (posts d) \<and>
     (postTag \<noteq> JNull \<and> (\<forall>p \<in> set (posts d). \<not> tags_in postTag p) \<longrightarrow> found = [])"
proof (cases "postTag = JNull")
  case True
  have res: "getPostData d postTag = (d, Inr (most_recent_10 (posts d)))"
    using True by (simp add: getPostData_def js_truthy_object_def)
  have len: "length (most_recent_10 (posts d)) \<le> 10"
    by (simp add: most_recent_10_length)
  show ?thesis
    unfolding res using True len most_recent_10_subset [of "posts d"]
      most_recent_10_descending [of "posts d"]
    by (intro exI [of _ "most_recent_10 (posts d)"]) simp
next
  case False
  let ?m = "filter (tags_in postTag) (posts d)"
  let ?r = "most_recent_10 ?m"
  have res: "getPostData d postTag = (d, Inr ?r)"
    using False by (simp add: getPostData_def js_truthy_object_def)
  have sub: "set ?r \<subseteq> set ?m"
    by (rule most_recent_10_subset)
  have in_store: "set ?r \<subseteq> set (posts d)"
    using sub by auto
  have matching: "set ?r \<subseteq> {p \<in> set (posts d). tags_in postTag p}"
    using sub by auto
  have msub: "mset ?r \<subseteq># mset ?m"
    by (rule most_recent_10_mset)
  have len: "length ?r = min 10 (length ?m)"
    by (rule most_recent_10_length)
  have desc: "sorted_wrt (\<lambda>a b. createdAt b \<le> createdAt a) ?r"
    by (rule most_recent_10_descending)
  have le: "length ?r \<le> 10"
    using len by simp
  show ?thesis
  proof (intro exI [of _ ?r] conjI)
    show "getPostData d postTag = (d, Inr ?r)"
      by (rule res)
    show "\<forall>e. snd (getPostData d postTag) \<noteq> Inl e"
      by (simp add: res)
    show "postTag \<noteq> JNull \<longrightarrow>
        ?r = most_recent_10 ?m \<and> length ?r = min 10 (length ?m) \<and>
        set ?r \<subseteq> {p \<in> set (posts d). tags_in postTag p} \<and> mset ?r \<subseteq># mset ?m"
      by (intro impI conjI refl len matching msub)
    show "\<forall>t. postTag = JString t \<longrightarrow>
        ?r = most_recent_10 (filter (\<lambda>p. t \<in> set (tags p)) (posts d)) \<and>
        (\<forall>p \<in> set ?r. t \<in> set (tags p))"
    proof (intro allI impI conjI)
      fix t
      assume t: "postTag = JString t"
      have same: "tags_in (JString t) = (\<lambda>p. t \<in> set (tags p))"
        by (simp add: tags_in_def fun_eq_iff)
      show "?r = most_recent_10 (filter (\<lambda>p. t \<in> set (tags p)) (posts d))"
        unfolding t same by (rule refl)
      show "\<forall>p \<in> set ?r. t \<in> set (tags p)"
        using sub unfolding t same by auto
    qed
    show "sorted_wrt (\<lambda>a b. createdAt b \<le> createdAt a) ?r"
      by (rule desc)
    show "length ?r \<le> 10"
      by (rule le)
    show "set ?r \<subseteq> set (posts d)"
      by (rule in_store)
    show "postTag \<noteq> JNull \<and> (\<forall>p \<in> set (posts d). \<not> tags_in postTag p) \<longrightarrow> ?r = []"
      by (auto simp: most_recent_10_def filter_empty_conv)
  qed
qed

theorem getPostData_always_succeeds_witness:
  "getPostData small_db (JString ''art'')
     = (small_db, Inr [mk_post post3 user9 [''art''] [user1, user2] 300,
                       mk_post post2 user2 [''art'', ''news''] [] 200]) \<and>
   getPostData small_db (JString ''sports'') = (small_db, Inr [])"
proof -
  have art: "most_recent_10 (filter (\<lambda>p. ''art'' \<in> set (tags p)) (posts small_db))
               = [mk_post post3 user9 [''art''] [user1, user2] 300,
                  mk_post post2 user2 [''art'', ''news''] [] 200]"
    by (simp add: most_recent_10_def small_db_def mk_post_def)
  have none: "\<forall>p \<in> set (posts small_db). \<not> tags_in (JString ''sports'') p"
    by (simp add: small_db_def mk_post_def tags_in_def)
  from getPostData_always_succeeds [of small_db "JString ''art''"] art
  have first: "getPostData small_db (JString ''art'')
     = (small_db, Inr [mk_post post3 user9 [''art''] [user1, user2] 300,
                       mk_post post2 user2 [''art'', ''news''] [] 200])"
    by auto
  from getPostData_always_succeeds [of small_db "JString ''sports''"] none
  have "getPostData small_db (JString ''sports'') = (small_db, Inr [])"
    by auto
  with first show ?thesis by simp
qed

text \<open>
  C8, at a request with no tag. The router hands the handler \<^verbatim>\<open>undefined\<close>, which is
  not \<^verbatim>\<open>null\<close>, so the handler filters by tag and finds nothing, while the ten
  most recent posts of the store are its three posts, newest first. The branch for
  \<^verbatim>\<open>null\<close> would have answered with them.
\<close>

theorem getPostData_no_tag:
  "getPostData small_db JUndefined = (small_db, Inr []) \<and>
   most_recent_10 (posts small_db) =
     [mk_post post3 user9 [''art''] [user1, user2] 300,
      mk_post post2 user2 [''art'', ''news''] [] 200,
      mk_post post1 user1 [''news''] [user2] 100] \<and>
   getPostData small_db JNull = (small_db, Inr (most_recent_10 (posts small_db)))"
  by (simp add: getPostData_def tags_in_def js_truthy_object_def most_recent_10_def
      small_db_def mk_post_def)

section \<open>Defaults of the feed query\<close>

text \<open>
  C9, at requests with a missing or zero value. With \<open>start\<close> and \<open>limit\<close> missing
  on a store of eleven posts the page is the one for \<open>start = 0\<close>, \<open>limit = 10\<close>,
  but \<open>hasNextPage\<close> is false where that request has it true. With \<open>start = 1\<close>
  and \<open>limit = 0\<close> on a store of three posts the page holds three posts and
  \<open>hasNextPage\<close> is true, where \<open>start = 1\<close>, \<open>limit = 10\<close> has an empty page and
  no next page.
\<close>

theorem getPosts_defaults_differ:
  "map_sum id hasNextPage (snd (getPosts eleven_db \<lparr>start = None, limit = None, order = None\<rparr>))
     = Inr False \<and>
   map_sum id hasNextPage (snd (getPosts eleven_db \<lparr>start = Some 0, limit = Some 10, order = None\<rparr>))
     = Inr True \<and>
   map_sum id data (snd (getPosts eleven_db \<lparr>start = None, limit = None, order = None\<rparr>))
     = map_sum id data (snd (getPosts eleven_db \<lparr>start = Some 0, limit = Some 10, order = None\<rparr>)) \<and>
   map_sum id (\<lambda>r. (length (data r), hasNextPage r))
       (snd (getPosts small_db \<lparr>start = Some 1, limit = Some 0, order = None\<rparr>))
     = Inr (3, True) \<and>
   map_sum id (\<lambda>r. (length (data r), hasNextPage r))
       (snd (getPosts small_db \<lparr>start = Some 1, limit = Some 10, order = None\<rparr>))
     = Inr (0, False)"
  by (simp add: getPosts_def js_or_def js_mul_def js_add_def js_gt_def skip_stage_def
      limit_stage_def total_facet_def sort_stage_def eleven_db_def small_db_def
      lookup_unwind_def mk_user_def mk_post_def)

end
